theory Spec2Isabelle
  imports Complex_Main "HOL-Library.AList"
begin

section \<open>Exceptions\<close>

text \<open>
  Every exception the modelled code can raise is a value. The five \<open>ValueError\<close>s
  of \<open>Curve.__init__\<close> differ in their message only; the message is the tag:
  \<^item> \<open>NegativeSpeeds\<close>: "Fan curve contains negative speeds, speed should be in [0,100]";
  \<^item> \<open>SpeedsAbove100\<close>: "Fan curve contains speeds greater than 100, speed should be in [0,100]";
  \<^item> \<open>TempsNotIncreasing\<close>: "Fan curve points should be strictly monotonically increasing,
    configuration error ?";
  \<^item> \<open>SpeedsDecreasing\<close>: "Curve fan speeds should be monotonically increasing,
    configuration error ?";
  \<^item> \<open>LowestSpeed\<close>: "Lowest speed value to be set to 4";
  \<^item> \<open>InvalidLiteral\<close>: what \<open>int()\<close> and \<open>float()\<close> raise on a text that is no number.
\<close>

datatype value_error =
  NegativeSpeeds | SpeedsAbove100 | TempsNotIncreasing | SpeedsDecreasing | LowestSpeed
  | InvalidLiteral

datatype exn =
  FileNotFoundError
  | NotADirectoryError
  | PermissionError
  | OSError
  | KeyError string
  | AttributeError
  | IndexError
  | OverflowError
  | ValueError value_error
  | SystemExit int

section \<open>The fan curve\<close>

text \<open>
  A number of the curve is a Python int or float; both are rationals, and the model
  computes on them exactly. \<open>np.array(points)\<close> of a list of \<open>[temperature, speed]\<close>
  rows is the list of pairs; of the empty list it is an array of one dimension, and the
  column selection \<open>self.points[:, 0]\<close> raises \<open>IndexError\<close>.
\<close>

record curve =
  points :: "(rat \<times> rat) list"
  temps :: "rat list"
  speeds :: "rat list"

text \<open>\<open>np.min\<close>, \<open>np.max\<close>, \<open>np.diff\<close> and \<open>np.any\<close> on a non-empty vector.\<close>

definition np_min :: "rat list \<Rightarrow> rat" where
  "np_min xs = fold min (tl xs) (hd xs)"

definition np_max :: "rat list \<Rightarrow> rat" where
  "np_max xs = fold max (tl xs) (hd xs)"

fun np_diff :: "rat list \<Rightarrow> rat list" where
  "np_diff (a # b # xs) = (b - a) # np_diff (b # xs)"
| "np_diff _ = []"

definition np_any :: "bool list \<Rightarrow> bool" where
  "np_any bs = list_ex (\<lambda>b. b) bs"

text \<open>\<open>Curve.__init__\<close>: the five checks in the order of the source.\<close>

definition Curve_init :: "(rat \<times> rat) list \<Rightarrow> exn + curve" where
  "Curve_init pts =
     (if pts = [] then Inl IndexError
      else
        let ts = map fst pts; ss = map snd pts in
        if np_min ss < 0 then Inl (ValueError NegativeSpeeds)
        else if np_max ss > 100 then Inl (ValueError SpeedsAbove100)
        else if np_any (map (\<lambda>d. d \<le> 0) (np_diff ts)) then Inl (ValueError TempsNotIncreasing)
        else if np_any (map (\<lambda>d. d < 0) (np_diff ss)) then Inl (ValueError SpeedsDecreasing)
        else if np_min ss \<le> 3 then Inl (ValueError LowestSpeed)
        else Inr \<lparr>points = pts, temps = ts, speeds = ss\<rparr>)"

text \<open>
  Modelled from the spec: \<open>np.interp\<close> is numpy's, and numpy's code is not part of the
  repository. The model follows section 4.2 of the specification and numpy's documented
  algorithm on increasing sample points \<open>xp\<close>: left of the first sample the result is
  \<open>fp[0]\<close>, right of the last it is \<open>fp[-1]\<close>; otherwise, with \<open>j\<close> the index where
  \<open>xp[j] \<le> x < xp[j+1]\<close>, it is \<open>fp[j]\<close> when \<open>x = xp[j]\<close> or \<open>j\<close> is the last index, and
  \<open>slope * (x - xp[j]) + fp[j]\<close> with \<open>slope = (fp[j+1] - fp[j]) / (xp[j+1] - xp[j])\<close>
  otherwise. The arithmetic is exact: the rounding of numpy's double precision is not
  modelled. \<open>interp_from\<close> finds \<open>j\<close> by walking the samples from the left.
\<close>

fun interp_from :: "rat \<Rightarrow> rat list \<Rightarrow> rat list \<Rightarrow> rat" where
  "interp_from x (x0 # x1 # xs) (f0 # f1 # fs) =
     (if x < x1 then
        (if x = x0 then f0 else (f1 - f0) / (x1 - x0) * (x - x0) + f0)
      else interp_from x (x1 # xs) (f1 # fs))"
| "interp_from x [x0] (f0 # fs) = f0"
| "interp_from x _ _ = 0"

definition np_interp :: "rat \<Rightarrow> rat list \<Rightarrow> rat list \<Rightarrow> rat" where
  "np_interp x xp fp =
     (if x < hd xp then hd fp
      else if last xp < x then last fp
      else interp_from x xp fp)"

text \<open>\<open>Curve.get_speed\<close>.\<close>

definition get_speed :: "curve \<Rightarrow> rat \<Rightarrow> rat" where
  "get_speed c temp = np_interp temp (temps c) (speeds c)"

section \<open>Python numbers\<close>

text \<open>
  A Python int is an \<open>int\<close>. A finite Python float is the rational it stands for, and
  each float operation of the source rounds its exact result to the nearest double
  (IEEE 754 binary64, ties to even, gradual underflow); a result of magnitude
  \<open>2 ^ 1024\<close> or more is infinite. \<open>round_double\<close> does the rounding: for \<open>x \<noteq> 0\<close>
  with \<open>2 ^ e \<le> \<bar>x\<bar> < 2 ^ (e + 1)\<close>, the doubles around \<open>x\<close> are the multiples of
  \<open>2 ^ (max e (-1022) - 52)\<close>.
\<close>

definition pow2 :: "int \<Rightarrow> rat" where
  "pow2 e = (if 0 \<le> e then 2 ^ nat e else 1 / 2 ^ nat (- e))"

fun bit_length :: "nat \<Rightarrow> nat" where
  "bit_length n = (if n = 0 then 0 else Suc (bit_length (n div 2)))"

definition ilog2 :: "rat \<Rightarrow> int" where
  "ilog2 a =
     (if 1 \<le> a then int (bit_length (nat \<lfloor>a\<rfloor>)) - 1
      else - int (bit_length (nat (\<lceil>1 / a\<rceil> - 1))))"

definition round_half_even :: "rat \<Rightarrow> int" where
  "round_half_even q =
     (let f = \<lfloor>q\<rfloor>; d = q - of_int f in
      if d < 1 / 2 then f
      else if 1 / 2 < d then f + 1
      else if even f then f else f + 1)"

definition round_double :: "rat \<Rightarrow> rat" where
  "round_double x =
     (if x = 0 then 0
      else
        let e = max (ilog2 \<bar>x\<bar>) (- 1022); u = pow2 (e - 52) in
        sgn x * of_int (round_half_even (\<bar>x\<bar> / u)) * u)"

datatype pyfloat = Finite rat | Infinite

definition to_double :: "rat \<Rightarrow> pyfloat" where
  "to_double x = (let r = round_double x in if 2 ^ 1024 \<le> \<bar>r\<bar> then Infinite else Finite r)"

text \<open>\<open>a / b\<close> on a float \<open>a\<close> and a non-zero constant \<open>b\<close>; \<open>a * b\<close> on floats.\<close>

definition float_div :: "pyfloat \<Rightarrow> rat \<Rightarrow> pyfloat" where
  "float_div a b = (case a of Finite x \<Rightarrow> to_double (x / b) | Infinite \<Rightarrow> Infinite)"

definition float_mul :: "pyfloat \<Rightarrow> rat \<Rightarrow> pyfloat" where
  "float_mul a b = (case a of Finite x \<Rightarrow> to_double (x * b) | Infinite \<Rightarrow> Infinite)"

text \<open>
  \<open>a / b\<close> on ints, \<open>b \<noteq> 0\<close>: the correctly rounded quotient, or \<open>OverflowError\<close>
  ("integer division result too large for a float").
\<close>

definition int_truediv :: "int \<Rightarrow> int \<Rightarrow> exn + pyfloat" where
  "int_truediv a b =
     (case to_double (of_int a / of_int b) of
        Infinite \<Rightarrow> Inl OverflowError
      | Finite q \<Rightarrow> Inr (Finite q))"

text \<open>\<open>int(x)\<close> truncates a float towards zero; an infinity raises \<open>OverflowError\<close>.\<close>

definition trunc :: "rat \<Rightarrow> int" where
  "trunc r = (if 0 \<le> r then \<lfloor>r\<rfloor> else \<lceil>r\<rceil>)"

definition int_of_float :: "pyfloat \<Rightarrow> exn + int" where
  "int_of_float a = (case a of Finite x \<Rightarrow> Inr (trunc x) | Infinite \<Rightarrow> Inl OverflowError)"

datatype number = PyInt int | PyFloat pyfloat

definition py_int_of_number :: "number \<Rightarrow> exn + int" where
  "py_int_of_number v = (case v of PyInt i \<Rightarrow> Inr i | PyFloat a \<Rightarrow> int_of_float a)"

subsection \<open>Numbers as text\<close>

text \<open>
  \<open>str(n)\<close> of an int. \<open>int(text)\<close> and \<open>float(text)\<close> are modelled on the texts a
  hardware-monitor file holds: a decimal integer, with an optional sign, between
  optional ASCII white space. On any other text the model raises \<open>ValueError\<close>; Python
  would also read digit groups joined by underscores, and \<open>float\<close> a fraction, an
  exponent, \<open>inf\<close> and \<open>nan\<close>.
\<close>

definition digit_char :: "nat \<Rightarrow> char" where
  "digit_char d = ''0123456789'' ! d"

fun digits_of :: "nat \<Rightarrow> string" where
  "digits_of n =
     (if n < 10 then [digit_char n]
      else digits_of (n div 10) @ [digit_char (n mod 10)])"

definition py_str :: "int \<Rightarrow> string" where
  "py_str i = (if i < 0 then CHR ''-'' # digits_of (nat (- i)) else digits_of (nat i))"

definition is_digit :: "char \<Rightarrow> bool" where
  "is_digit c = (c \<in> set ''0123456789'')"

definition digit_val :: "char \<Rightarrow> nat" where
  "digit_val c = of_char c - 48"

definition is_space :: "char \<Rightarrow> bool" where
  "is_space c = (c \<in> set [CHR '' '', CHR 0x09, CHR 0x0A, CHR 0x0B, CHR 0x0C, CHR 0x0D])"

definition strip :: "string \<Rightarrow> string" where
  "strip s = rev (dropWhile is_space (rev (dropWhile is_space s)))"

definition parse_digits :: "string \<Rightarrow> exn + int" where
  "parse_digits ds =
     (if ds \<noteq> [] \<and> list_all is_digit ds
      then Inr (int (foldl (\<lambda>n c. 10 * n + digit_val c) 0 ds))
      else Inl (ValueError InvalidLiteral))"

definition py_int :: "string \<Rightarrow> exn + int" where
  "py_int text =
     (case strip text of
        [] \<Rightarrow> Inl (ValueError InvalidLiteral)
      | c # cs \<Rightarrow>
          if c = CHR ''-'' then map_sum id uminus (parse_digits cs)
          else if c = CHR ''+'' then parse_digits cs
          else parse_digits (c # cs))"

definition py_float :: "string \<Rightarrow> exn + pyfloat" where
  "py_float text = map_sum id (\<lambda>n. to_double (of_int n)) (py_int text)"

section \<open>The hardware-monitor file interface\<close>

text \<open>
  The file system the program runs against, and the trace of what it wrote:
  \<^item> \<open>dirs w p\<close> is what \<open>os.listdir(p)\<close> returns or raises;
  \<^item> \<open>files w p\<close> is what opening \<open>p\<close> for reading and reading it returns or raises;
  \<^item> \<open>wperm w p\<close> is the exception that opening \<open>p\<close> for writing raises, if any;
  \<^item> \<open>io_log w\<close> lists, oldest first, every write the program attempted: the text
    written to a path, or the exception that refused it.
  A text written to a path is what the path holds afterwards, as for a regular file.
\<close>

datatype io_event = Wrote string string | Refused string exn

record world =
  dirs :: "string \<Rightarrow> exn + string list"
  files :: "string \<Rightarrow> exn + string"
  wperm :: "string \<Rightarrow> exn option"
  io_log :: "io_event list"

definition ROOT_DIR :: string where
  "ROOT_DIR = ''/sys/class/drm''"

definition HWMON_DIR :: string where
  "HWMON_DIR = ''device/hwmon''"

text \<open>\<open>os.path.join\<close> on POSIX.\<close>

definition path_join2 :: "string \<Rightarrow> string \<Rightarrow> string" where
  "path_join2 a b =
     (if b \<noteq> [] \<and> hd b = CHR ''/'' then b
      else if a = [] \<or> last a = CHR ''/'' then a @ b
      else a @ ''/'' @ b)"

definition path_join :: "string \<Rightarrow> string list \<Rightarrow> string" where
  "path_join a bs = foldl path_join2 a bs"

text \<open>
  \<open>re.match\<close> of \<open>^prefix\d$\<close>: the prefix, one digit, and nothing more but for one
  final newline, which \<open>$\<close> lets pass. \<open>\d\<close> is modelled on the ASCII digits.
\<close>

definition re_match_digit :: "string \<Rightarrow> string \<Rightarrow> bool" where
  "re_match_digit prefix s =
     (take (length prefix) s = prefix \<and>
      (case drop (length prefix) s of
         [d] \<Rightarrow> is_digit d
       | [d, n] \<Rightarrow> is_digit d \<and> n = CHR 0x0A
       | _ \<Rightarrow> False))"

definition HWMON_REGEX :: "string \<Rightarrow> bool" where
  "HWMON_REGEX node = re_match_digit ''hwmon'' node"

definition CARD_REGEX :: "string \<Rightarrow> bool" where
  "CARD_REGEX node = re_match_digit ''card'' node"

text \<open>\<open>str.lower\<close> on ASCII.\<close>

definition lower_char :: "char \<Rightarrow> char" where
  "lower_char c =
     (case map_of (zip ''ABCDEFGHIJKLMNOPQRSTUVWXYZ'' ''abcdefghijklmnopqrstuvwxyz'') c of
        None \<Rightarrow> c
      | Some l \<Rightarrow> l)"

definition lower :: "string \<Rightarrow> string" where
  "lower s = map lower_char s"

section \<open>Card\<close>

definition AMD_FIELDS :: "string list" where
  "AMD_FIELDS = [''temp1_input'', ''pwm1_max'', ''pwm1_min'', ''pwm1_enable'', ''pwm1'']"

text \<open>
  \<open>endpoints\<close> is the dict \<open>self._endpoints\<close>, from an endpoint's name to its path. An
  object whose \<open>_monitor\<close> was never set does not outlive \<open>__init__\<close>, so the field is
  a plain string.
\<close>

record card =
  card_id :: string
  monitor :: string
  endpoints :: "(string \<times> string) list"

text \<open>
  \<open>Card._load_endpoints\<close>: every entry of the monitor's directory but the four
  bookkeeping ones.
\<close>

definition load_endpoints :: "world \<Rightarrow> string \<Rightarrow> string \<Rightarrow> exn + (string \<times> string) list" where
  "load_endpoints w cid mon =
     (let dir = path_join ROOT_DIR [cid, HWMON_DIR, mon] in
      case dirs w dir of
        Inl e \<Rightarrow> Inl e
      | Inr entries \<Rightarrow>
          Inr (fold (\<lambda>endpoint eps.
                  if endpoint \<notin> set [''device'', ''power'', ''subsystem'', ''uevent'']
                  then AList.update endpoint (path_join dir [endpoint]) eps
                  else eps)
                entries []))"

text \<open>
  \<open>Card.__init__\<close>: the last entry of the hwmon directory that matches \<open>HWMON_REGEX\<close>
  is the monitor. When none matches, \<open>self._monitor\<close> is never assigned and
  \<open>_load_endpoints\<close> raises \<open>AttributeError\<close> on reading it. The constructor does not
  call \<open>_verify_card\<close>.
\<close>

definition find_monitor :: "string list \<Rightarrow> string option" where
  "find_monitor nodes = fold (\<lambda>node m. if HWMON_REGEX node then Some node else m) nodes None"

definition Card_init :: "world \<Rightarrow> string \<Rightarrow> exn + card" where
  "Card_init w cid =
     (case dirs w (path_join ROOT_DIR [cid, HWMON_DIR]) of
        Inl e \<Rightarrow> Inl e
      | Inr nodes \<Rightarrow>
          (case find_monitor nodes of
             None \<Rightarrow> Inl AttributeError
           | Some mon \<Rightarrow>
               (case load_endpoints w cid mon of
                  Inl e \<Rightarrow> Inl e
                | Inr eps \<Rightarrow> Inr \<lparr>card_id = cid, monitor = mon, endpoints = eps\<rparr>)))"

text \<open>\<open>Card._verify_card\<close>: nothing in the program calls it.\<close>

definition verify_card :: "card \<Rightarrow> exn + unit" where
  "verify_card c =
     (if list_ex (\<lambda>endpoint. map_of (endpoints c) endpoint = None) AMD_FIELDS
      then Inl FileNotFoundError
      else Inr ())"

text \<open>\<open>Card.read_endpoint\<close> and \<open>Card.write_endpoint\<close>.\<close>

definition read_endpoint :: "card \<Rightarrow> string \<Rightarrow> world \<Rightarrow> exn + string" where
  "read_endpoint c endpoint w =
     (case map_of (endpoints c) endpoint of
        None \<Rightarrow> Inl (KeyError endpoint)
      | Some p \<Rightarrow> files w p)"

definition write_endpoint :: "card \<Rightarrow> string \<Rightarrow> int \<Rightarrow> world \<Rightarrow> (exn + nat) \<times> world" where
  "write_endpoint c endpoint data w =
     (case map_of (endpoints c) endpoint of
        None \<Rightarrow> (Inl (KeyError endpoint), w)
      | Some p \<Rightarrow>
          (case wperm w p of
             None \<Rightarrow>
               (Inr (length (py_str data)),
                w\<lparr>files := (files w)(p := Inr (py_str data)),
                  io_log := io_log w @ [Wrote p (py_str data)]\<rparr>)
           | Some e \<Rightarrow>
               (Inl (if e = PermissionError then SystemExit 1 else e),
                w\<lparr>io_log := io_log w @ [Refused p e]\<rparr>)))"

text \<open>The properties \<open>fan_speed\<close>, \<open>gpu_temp\<close>, \<open>fan_max\<close> and \<open>fan_min\<close>.\<close>

definition fan_speed :: "card \<Rightarrow> world \<Rightarrow> exn + int" where
  "fan_speed c w =
     (case read_endpoint c ''fan1_input'' w of
        Inl (KeyError k) \<Rightarrow> Inr 0
      | Inl e \<Rightarrow> Inl e
      | Inr text \<Rightarrow> py_int text)"

definition gpu_temp :: "card \<Rightarrow> world \<Rightarrow> exn + pyfloat" where
  "gpu_temp c w =
     (case read_endpoint c ''temp1_input'' w of
        Inl e \<Rightarrow> Inl e
      | Inr text \<Rightarrow> map_sum id (\<lambda>a. float_div a 1000) (py_float text))"

definition fan_max :: "card \<Rightarrow> world \<Rightarrow> exn + int" where
  "fan_max c w =
     (case read_endpoint c ''pwm1_max'' w of Inl e \<Rightarrow> Inl e | Inr text \<Rightarrow> py_int text)"

definition fan_min :: "card \<Rightarrow> world \<Rightarrow> exn + int" where
  "fan_min c w =
     (case read_endpoint c ''pwm1_min'' w of Inl e \<Rightarrow> Inl e | Inr text \<Rightarrow> py_int text)"

text \<open>\<open>Card.set_system_controlled_fan\<close>.\<close>

definition system_controlled_fan :: int where
  "system_controlled_fan = 2"

definition manual_control :: int where
  "manual_control = 1"

definition set_system_controlled_fan :: "card \<Rightarrow> bool \<Rightarrow> world \<Rightarrow> (exn + nat) \<times> world" where
  "set_system_controlled_fan c state w =
     write_endpoint c ''pwm1_enable'' (if state then system_controlled_fan else manual_control) w"

text \<open>
  \<open>Card.set_fan_speed\<close>. \<open>scaled_speed\<close> is its \<open>if\<close> statement, the new value of the
  variable \<open>speed\<close>: an int read from the device, or the float \<open>self.fan_max / 100 * speed\<close>,
  a quotient of ints times an int between 0 and 100. The \<open>int(speed)\<close> of the last
  line runs after the mode has been written.
\<close>

definition scaled_speed :: "card \<Rightarrow> int \<Rightarrow> world \<Rightarrow> exn + number" where
  "scaled_speed c speed w =
     (if 100 \<le> speed then map_sum id PyInt (fan_max c w)
      else if speed \<le> 0 then map_sum id PyInt (fan_min c w)
      else
        (case fan_max c w of
           Inl e \<Rightarrow> Inl e
         | Inr m \<Rightarrow>
             map_sum id (\<lambda>q. PyFloat (float_mul q (of_int speed))) (int_truediv m 100)))"

definition set_fan_speed :: "card \<Rightarrow> int \<Rightarrow> world \<Rightarrow> (exn + nat) \<times> world" where
  "set_fan_speed c speed w =
     (case scaled_speed c speed w of
        Inl e \<Rightarrow> (Inl e, w)
      | Inr duty \<Rightarrow>
          (case set_system_controlled_fan c False w of
             (Inl e, w') \<Rightarrow> (Inl e, w')
           | (Inr n, w') \<Rightarrow>
               (case py_int_of_number duty of
                  Inl e \<Rightarrow> (Inl e, w')
                | Inr d \<Rightarrow> write_endpoint c ''pwm1'' d w')))"

section \<open>Scanner\<close>

text \<open>
  \<open>Scanner._get_cards\<close>: the loop over \<open>os.listdir(ROOT_DIR)\<close>, with the dict \<open>cards\<close>
  as an association list in insertion order. \<open>cards_to_scan\<close> is \<open>None\<close> or a list; both
  \<open>None\<close> and the empty list are false. Only \<open>FileNotFoundError\<close> skips a node.
\<close>

fun scan_nodes ::
  "world \<Rightarrow> string list option \<Rightarrow> string list \<Rightarrow> (string \<times> card) list \<Rightarrow> exn + (string \<times> card) list"
where
  "scan_nodes w cards_to_scan [] cards = Inr cards"
| "scan_nodes w cards_to_scan (node # nodes) cards =
     (if CARD_REGEX node then
        (if (case cards_to_scan of None \<Rightarrow> False | Some cs \<Rightarrow> cs \<noteq> [] \<and> lower node \<notin> set (map lower cs))
         then scan_nodes w cards_to_scan nodes cards
         else
           (case Card_init w node of
              Inr c \<Rightarrow> scan_nodes w cards_to_scan nodes (AList.update node c cards)
            | Inl e \<Rightarrow>
                if e = FileNotFoundError then scan_nodes w cards_to_scan nodes cards
                else Inl e))
      else scan_nodes w cards_to_scan nodes cards)"

definition get_cards :: "world \<Rightarrow> string list option \<Rightarrow> exn + (string \<times> card) list" where
  "get_cards w cards_to_scan =
     (case dirs w ROOT_DIR of
        Inl e \<Rightarrow> Inl e
      | Inr nodes \<Rightarrow> scan_nodes w cards_to_scan nodes [])"

section \<open>FanController\<close>

record config =
  cfg_cards :: "string list option"
  speed_matrix :: "(rat \<times> rat) list"

record fan_controller =
  scanner_cards :: "(string \<times> card) list"
  fc_curve :: curve

text \<open>\<open>FanController.__init__\<close>: no card is \<open>sys.exit(1)\<close>.\<close>

definition FanController_init :: "world \<Rightarrow> config \<Rightarrow> exn + fan_controller" where
  "FanController_init w cfg =
     (case get_cards w (cfg_cards cfg) of
        Inl e \<Rightarrow> Inl e
      | Inr cards \<Rightarrow>
          if length cards < 1 then Inl (SystemExit 1)
          else
            (case Curve_init (speed_matrix cfg) of
               Inl e \<Rightarrow> Inl e
             | Inr cv \<Rightarrow> Inr \<lparr>scanner_cards = cards, fc_curve = cv\<rparr>))"

text \<open>
  The body of the \<open>for\<close> loop of \<open>FanController.main\<close>, for one card. The arguments of
  \<open>LOGGER.debug\<close> are evaluated before the call, so \<open>card.fan_speed\<close>, \<open>card.fan_min\<close> and
  \<open>card.fan_max\<close> are read, in this order, and an exception of theirs leaves the loop;
  logging itself has no effect on the model.
\<close>

definition control_card :: "curve \<Rightarrow> card \<Rightarrow> world \<Rightarrow> (exn + nat) \<times> world" where
  "control_card cv c w =
     (case gpu_temp c w of
        Inl e \<Rightarrow> (Inl e, w)
      | Inr temp \<Rightarrow>
          (case int_of_float temp of
             Inl e \<Rightarrow> (Inl e, w)
           | Inr t \<Rightarrow>
               let speed = trunc (get_speed cv (of_int t));
                   speed = (if speed < 0 then 0 else speed)
               in
                 (case fan_speed c w of
                    Inl e \<Rightarrow> (Inl e, w)
                  | Inr rpm \<Rightarrow>
                      (case fan_min c w of
                         Inl e \<Rightarrow> (Inl e, w)
                       | Inr lo \<Rightarrow>
                           (case fan_max c w of
                              Inl e \<Rightarrow> (Inl e, w)
                            | Inr hi \<Rightarrow> set_fan_speed c speed w)))))"

text \<open>One pass of the \<open>for\<close> loop over \<open>self._scanner.cards.items()\<close>.\<close>

fun tick :: "curve \<Rightarrow> (string \<times> card) list \<Rightarrow> world \<Rightarrow> (exn + unit) \<times> world" where
  "tick cv [] w = (Inr (), w)"
| "tick cv ((name, c) # cards) w =
     (case control_card cv c w of
        (Inl e, w') \<Rightarrow> (Inl e, w')
      | (Inr n, w') \<Rightarrow> tick cv cards w')"

text \<open>
  \<open>FanController.main\<close>: \<open>while True\<close> has no exit but an exception. \<open>main n\<close> runs at
  most \<open>n\<close> passes: \<open>Some e\<close> is the exception that ended the process, \<open>None\<close> says that
  the loop is still running after \<open>n\<close> passes. \<open>time.sleep\<close> has no effect on the model.
\<close>

fun main :: "nat \<Rightarrow> fan_controller \<Rightarrow> world \<Rightarrow> exn option \<times> world" where
  "main 0 fc w = (None, w)"
| "main (Suc n) fc w =
     (case tick (fc_curve fc) (scanner_cards fc) w of
        (Inl e, w') \<Rightarrow> (Some e, w')
      | (Inr u, w') \<Rightarrow> main n fc w')"

section \<open>Example inputs\<close>

text \<open>The curve of the repository's \<open>test_curve\<close>.\<close>

definition test_points :: "(rat \<times> rat) list" where
  "test_points = [(10, 10), (20, 20), (30, 30), (70, 80), (80, 100)]"

definition test_curve :: curve where
  "test_curve =
     \<lparr>points = test_points, temps = [10, 20, 30, 70, 80], speeds = [10, 20, 30, 80, 100]\<rparr>"

text \<open>
  The card object that \<open>Card.__init__\<close> makes of a monitor directory with the five
  required files and \<open>fan1_input\<close>.
\<close>

definition amd_card :: "string \<Rightarrow> string \<Rightarrow> card" where
  "amd_card cid mon =
     \<lparr>card_id = cid, monitor = mon,
      endpoints =
        map (\<lambda>e. (e, ''/sys/class/drm/'' @ cid @ ''/device/hwmon/'' @ mon @ ''/'' @ e))
          [''temp1_input'', ''pwm1_max'', ''pwm1_min'', ''pwm1_enable'', ''pwm1'',
           ''fan1_input'']\<rparr>"

text \<open>
  Two cards, \<open>card0\<close> at 45 degrees with a duty maximum of 255 and \<open>card1\<close> at 61.5
  degrees with a duty maximum of 58; every write is allowed.
\<close>

definition two_cards :: world where
  "two_cards =
     \<lparr>dirs = (\<lambda>p.
        if p = ''/sys/class/drm'' then Inr [''card0'', ''card1'', ''renderD128'']
        else if p = ''/sys/class/drm/card0/device/hwmon'' then Inr [''hwmon0'']
        else if p = ''/sys/class/drm/card1/device/hwmon'' then Inr [''hwmon3'']
        else if p = ''/sys/class/drm/card0/device/hwmon/hwmon0''
          \<or> p = ''/sys/class/drm/card1/device/hwmon/hwmon3''
        then Inr [''device'', ''temp1_input'', ''pwm1_max'', ''pwm1_min'', ''pwm1_enable'',
                  ''pwm1'', ''fan1_input'', ''uevent'']
        else Inl FileNotFoundError),
      files = (\<lambda>p.
        if p = ''/sys/class/drm/card0/device/hwmon/hwmon0/temp1_input'' then Inr ''45000\<newline>''
        else if p = ''/sys/class/drm/card0/device/hwmon/hwmon0/pwm1_max'' then Inr ''255\<newline>''
        else if p = ''/sys/class/drm/card0/device/hwmon/hwmon0/pwm1_min'' then Inr ''0\<newline>''
        else if p = ''/sys/class/drm/card0/device/hwmon/hwmon0/fan1_input'' then Inr ''1200\<newline>''
        else if p = ''/sys/class/drm/card1/device/hwmon/hwmon3/temp1_input'' then Inr ''61500\<newline>''
        else if p = ''/sys/class/drm/card1/device/hwmon/hwmon3/pwm1_max'' then Inr ''58\<newline>''
        else if p = ''/sys/class/drm/card1/device/hwmon/hwmon3/pwm1_min'' then Inr ''0\<newline>''
        else if p = ''/sys/class/drm/card1/device/hwmon/hwmon3/fan1_input'' then Inr ''900\<newline>''
        else Inl FileNotFoundError),
      wperm = (\<lambda>p. None),
      io_log = []\<rparr>"

text \<open>The same two cards; the duty file of \<open>card0\<close> refuses the write.\<close>

definition denied_world :: world where
  "denied_world =
     two_cards\<lparr>wperm := (\<lambda>p.
        if p = ''/sys/class/drm/card0/device/hwmon/hwmon0/pwm1''
        then Some PermissionError else None)\<rparr>"

text \<open>
  Two cards; the monitor of \<open>card0\<close> has neither \<open>pwm1\<close> nor \<open>fan1_input\<close>.
  \<open>no_pwm1_card\<close> is the object that \<open>Card.__init__\<close> makes of it.
\<close>

definition no_pwm1_world :: world where
  "no_pwm1_world =
     \<lparr>dirs = (\<lambda>p.
        if p = ''/sys/class/drm'' then Inr [''card0'', ''card1'']
        else if p = ''/sys/class/drm/card0/device/hwmon'' then Inr [''hwmon0'']
        else if p = ''/sys/class/drm/card1/device/hwmon'' then Inr [''hwmon1'']
        else if p = ''/sys/class/drm/card0/device/hwmon/hwmon0''
        then Inr [''temp1_input'', ''pwm1_max'', ''pwm1_min'', ''pwm1_enable'', ''uevent'']
        else if p = ''/sys/class/drm/card1/device/hwmon/hwmon1''
        then Inr [''temp1_input'', ''pwm1_max'', ''pwm1_min'', ''pwm1_enable'', ''pwm1'',
                  ''fan1_input'']
        else Inl FileNotFoundError),
      files = (\<lambda>p. Inr ''0\<newline>''),
      wperm = (\<lambda>p. None),
      io_log = []\<rparr>"

definition no_pwm1_card :: card where
  "no_pwm1_card =
     \<lparr>card_id = ''card0'', monitor = ''hwmon0'',
      endpoints =
        map (\<lambda>e. (e, ''/sys/class/drm/card0/device/hwmon/hwmon0/'' @ e))
          [''temp1_input'', ''pwm1_max'', ''pwm1_min'', ''pwm1_enable'']\<rparr>"

text \<open>The card objects of \<open>two_cards\<close>.\<close>

definition card0 :: card where
  "card0 = amd_card ''card0'' ''hwmon0''"

definition card1 :: card where
  "card1 = amd_card ''card1'' ''hwmon3''"

section \<open>Properties of the fan curve\<close>

lemma np_min_Min: "xs \<noteq> [] \<Longrightarrow> np_min xs = Min (set xs)"
  by (cases xs) (simp_all add: np_min_def Min.set_eq_fold [symmetric] del: list.set)

lemma np_max_Max: "xs \<noteq> [] \<Longrightarrow> np_max xs = Max (set xs)"
  by (cases xs) (simp_all add: np_max_def Max.set_eq_fold [symmetric] del: list.set)

lemma strict2: "sorted_wrt (<) (a # b # xs) = ((a::rat) < b \<and> sorted_wrt (<) (b # xs))"
  by (rule sorted_wrt2) simp

lemma np_any_diff_strict:
  "np_any (map (\<lambda>d. d \<le> 0) (np_diff ts)) \<longleftrightarrow> \<not> sorted_wrt (<) ts"
  by (induction ts rule: np_diff.induct)
     (simp_all add: np_any_def strict2 del: sorted_wrt.simps(2), auto)

lemma np_any_diff_sorted:
  "np_any (map (\<lambda>d. d < 0) (np_diff ss)) \<longleftrightarrow> \<not> sorted ss"
  by (induction ss rule: np_diff.induct)
     (simp_all add: np_any_def sorted2 del: sorted_wrt.simps(2), auto)

lemma Curve_init_Inr:
  "Curve_init pts = Inr c \<longleftrightarrow>
     pts \<noteq> [] \<and> c = \<lparr>points = pts, temps = map fst pts, speeds = map snd pts\<rparr> \<and>
     sorted_wrt (<) (map fst pts) \<and> sorted (map snd pts) \<and>
     (\<forall>s \<in> set (map snd pts). 3 < s \<and> s \<le> 100)"
proof (cases "pts = []")
  case True
  then show ?thesis by (simp add: Curve_init_def)
next
  case False
  then have ne: "map snd pts \<noteq> []" by simp
  have fin: "finite (snd ` set pts)" "snd ` set pts \<noteq> {}" using False by simp_all
  show ?thesis
    using False
    unfolding Curve_init_def Let_def np_any_diff_strict np_any_diff_sorted
      np_min_Min [OF ne] np_max_Max [OF ne]
    by (simp add: Min_less_iff [OF fin] Min_le_iff [OF fin] Max_gr_iff [OF fin])
       (force simp: not_le not_less)
qed

lemma segment_lower:
  fixes x :: rat
  assumes "x0 \<le> x" "x < x1" "f0 \<le> f1"
  shows "f0 \<le> (f1 - f0) / (x1 - x0) * (x - x0) + f0"
  using assms by simp

lemma segment_mono:
  fixes x :: rat
  assumes "x0 < x1" "x \<le> y" "f0 \<le> f1"
  shows "(f1 - f0) / (x1 - x0) * (x - x0) + f0 \<le> (f1 - f0) / (x1 - x0) * (y - x0) + f0"
proof -
  have "0 \<le> (f1 - f0) / (x1 - x0)" using assms by simp
  then have "(f1 - f0) / (x1 - x0) * (x - x0) \<le> (f1 - f0) / (x1 - x0) * (y - x0)"
    using assms by (intro mult_left_mono) simp_all
  then show ?thesis by simp
qed

lemma segment_upper:
  fixes x :: rat
  assumes "x0 < x1" "x \<le> x1" "f0 \<le> f1"
  shows "(f1 - f0) / (x1 - x0) * (x - x0) + f0 \<le> f1"
proof -
  have "(f1 - f0) / (x1 - x0) * (x - x0) + f0 \<le> (f1 - f0) / (x1 - x0) * (x1 - x0) + f0"
    using assms by (intro segment_mono) simp_all
  also have "\<dots> = f1" using assms by simp
  finally show ?thesis .
qed

lemma sorted_le_last: "sorted (f # fs) \<Longrightarrow> (f::rat) \<le> last (f # fs)"
  using last_in_set [of fs] by (cases "fs = []") auto

lemma interp_from_bounds:
  "length xs = length fs \<Longrightarrow> xs \<noteq> [] \<Longrightarrow> sorted_wrt (<) xs \<Longrightarrow> sorted fs \<Longrightarrow> hd xs \<le> x \<Longrightarrow>
     hd fs \<le> interp_from x xs fs \<and> interp_from x xs fs \<le> last fs"
proof (induction x xs fs rule: interp_from.induct)
  case (1 x x0 x1 xs f0 f1 fs)
  have lt: "x0 < x1" and le: "f0 \<le> f1" using "1.prems" by simp_all
  have f1_last: "f1 \<le> last (f1 # fs)" using "1.prems" by (intro sorted_le_last) simp
  show ?case
  proof (cases "x < x1")
    case True
    let ?g = "(f1 - f0) / (x1 - x0) * (x - x0) + f0"
    have at_x: "interp_from x (x0 # x1 # xs) (f0 # f1 # fs) = ?g" using True by simp
    have ends: "hd (f0 # f1 # fs) = f0" "last (f0 # f1 # fs) = last (f1 # fs)" by simp_all
    have "f0 \<le> ?g"
      using "1.prems" True le by (intro segment_lower) simp_all
    moreover have "?g \<le> f1"
      using lt True le by (intro segment_upper) simp_all
    ultimately show ?thesis unfolding at_x ends using f1_last by linarith
  next
    case False
    then have "hd (f1 # fs) \<le> interp_from x (x1 # xs) (f1 # fs) \<and>
               interp_from x (x1 # xs) (f1 # fs) \<le> last (f1 # fs)"
      using "1.prems" by (intro "1.IH") simp_all
    then show ?thesis using False le by simp
  qed
qed simp_all



lemma np_interp_bounds:
  assumes "length xs = length fs" "xs \<noteq> []" "sorted_wrt (<) xs" "sorted fs"
  shows "hd fs \<le> np_interp x xs fs \<and> np_interp x xs fs \<le> last fs"
proof -
  have fs: "fs \<noteq> []" using assms by auto
  then have hl: "hd fs \<le> last fs" using assms(4) sorted_le_last [of "hd fs" "tl fs"] by simp
  have b: "hd xs \<le> x \<Longrightarrow> hd fs \<le> interp_from x xs fs \<and> interp_from x xs fs \<le> last fs"
    using assms by (intro interp_from_bounds) simp_all
  show ?thesis using b hl by (auto simp: np_interp_def)
qed







lemma Curve_init_shape:
  assumes "Curve_init pts = Inr c"
  shows "pts \<noteq> []" "temps c = map fst pts" "speeds c = map snd pts"
    "sorted_wrt (<) (map fst pts)" "sorted (map snd pts)"
  using assms unfolding Curve_init_Inr by simp_all







subsection \<open>The checks of the constructor\<close>

text \<open>
  Which check fails first decides the error: each error is raised exactly when its own
  check fails and every check before it passes. The last check compares the smallest
  speed with 3, not with 4.
\<close>

lemma Curve_init_first_failure:
  assumes "pts \<noteq> []"
  shows "Curve_init pts = Inl (ValueError NegativeSpeeds) \<longleftrightarrow> np_min (map snd pts) < 0"
    and "Curve_init pts = Inl (ValueError SpeedsAbove100) \<longleftrightarrow>
           \<not> np_min (map snd pts) < 0 \<and> 100 < np_max (map snd pts)"
    and "Curve_init pts = Inl (ValueError TempsNotIncreasing) \<longleftrightarrow>
           \<not> np_min (map snd pts) < 0 \<and> \<not> 100 < np_max (map snd pts) \<and>
           \<not> sorted_wrt (<) (map fst pts)"
    and "Curve_init pts = Inl (ValueError SpeedsDecreasing) \<longleftrightarrow>
           \<not> np_min (map snd pts) < 0 \<and> \<not> 100 < np_max (map snd pts) \<and>
           sorted_wrt (<) (map fst pts) \<and> \<not> sorted (map snd pts)"
    and "Curve_init pts = Inl (ValueError LowestSpeed) \<longleftrightarrow>
           \<not> np_min (map snd pts) < 0 \<and> \<not> 100 < np_max (map snd pts) \<and>
           sorted_wrt (<) (map fst pts) \<and> sorted (map snd pts) \<and> np_min (map snd pts) \<le> 3"
  using assms
  by (simp_all add: Curve_init_def Let_def np_any_diff_strict np_any_diff_sorted)

text \<open>
  Claim C2. Curve construction checks its invariants in a fixed order and raises the
  error of the first one violated; in particular every point list whose smallest speed
  is below the hardware floor of 4, all other invariants holding, should be refused with
  the floor error. The constructor compares the smallest speed with 3: on the points
  \<open>[[30, 3.5], [40, 50]]\<close> the smallest speed is below 4, no check fails, and the curve is
  constructed.
\<close>

theorem Curve_init_accepts_speed_below_floor:
  "np_min (map snd [(30, 7 / 2), (40, 50)]) < 4 \<and>
   Curve_init [(30, 7 / 2), (40, 50)] =
     Inr \<lparr>points = [(30, 7 / 2), (40, 50)], temps = [30, 40], speeds = [7 / 2, 50]\<rparr>"
  by (simp add: Curve_init_def np_min_def np_max_def np_any_def)

subsection \<open>Interpolation\<close>





subsection \<open>The range of the speeds\<close>

text \<open>
  What the checks of the constructor do give: a returned speed lies between the first
  and the last point's speed, above 3 and at most 100.
\<close>

lemma get_speed_range:
  assumes "Curve_init pts = Inr c"
  shows "snd (hd pts) \<le> get_speed c temp" and "get_speed c temp \<le> snd (last pts)"
    and "3 < get_speed c temp" and "get_speed c temp \<le> 100"
proof -
  note shape = Curve_init_shape [OF assms]
  have ne: "map fst pts \<noteq> []" using shape(1) by simp
  have "hd (map snd pts) \<le> np_interp temp (map fst pts) (map snd pts) \<and>
        np_interp temp (map fst pts) (map snd pts) \<le> last (map snd pts)"
    using ne shape(4,5) by (intro np_interp_bounds) simp_all
  then show lo: "snd (hd pts) \<le> get_speed c temp" and hi: "get_speed c temp \<le> snd (last pts)"
    using shape by (simp_all add: get_speed_def hd_map last_map)
  have "hd pts \<in> set pts" "last pts \<in> set pts" using shape(1) by simp_all
  moreover have "\<forall>s \<in> set (map snd pts). 3 < s \<and> s \<le> 100"
    using assms unfolding Curve_init_Inr by simp
  ultimately have "3 < snd (hd pts)" "snd (last pts) \<le> 100" by auto
  then show "3 < get_speed c temp" and "get_speed c temp \<le> 100" using lo hi by simp_all
qed

text \<open>
  Claim C9. On every curve that was constructed, a returned speed lies between the first
  and the last point's speed and so, by the checks of the constructor, within [4, 100].
  The curve of \<open>[[30, 3.5], [40, 50]]\<close> is constructed, and its speed at 30 degrees is
  3.5, below the floor of 4.
\<close>

theorem get_speed_below_floor:
  "(case Curve_init [(30, 7 / 2), (40, 50)] of
      Inl e \<Rightarrow> False
    | Inr c \<Rightarrow> get_speed c 30 = 7 / 2 \<and> get_speed c 30 < 4)"
  by (simp add: Curve_init_def np_min_def np_max_def np_any_def get_speed_def np_interp_def)

section \<open>Evaluating the model\<close>

text \<open>Floor and ceiling of a quotient of numerals, for evaluating the rounding.\<close>

lemma floor_rat_numeral:
  "\<lfloor>numeral a / numeral b :: rat\<rfloor> = numeral a div numeral b"
  by (metis floor_divide_of_int_eq of_int_numeral)

lemma ceiling_rat_numeral:
  "\<lceil>numeral a / numeral b :: rat\<rceil> = - (- numeral a div numeral b)"
  using ceiling_divide_eq_div [of "numeral a" "numeral b", where ?'a = rat] by simp

lemmas eval_double =
  floor_rat_numeral ceiling_rat_numeral round_double_def ilog2_def pow2_def
  round_half_even_def to_double_def Let_def trunc_def float_div_def float_mul_def
  int_truediv_def int_of_float_def py_int_of_number_def

lemmas eval_text =
  py_int_def py_float_def strip_def is_space_def parse_digits_def is_digit_def digit_val_def
  py_str_def digit_char_def

lemmas eval_fs =
  amd_card_def ROOT_DIR_def HWMON_DIR_def path_join_def
  path_join2_def re_match_digit_def HWMON_REGEX_def CARD_REGEX_def lower_def lower_char_def

lemmas eval_card =
  Card_init_def find_monitor_def load_endpoints_def read_endpoint_def write_endpoint_def
  fan_speed_def gpu_temp_def fan_max_def fan_min_def set_system_controlled_fan_def
  system_controlled_fan_def manual_control_def scaled_speed_def set_fan_speed_def
  get_cards_def

section \<open>Properties of the card operations\<close>

subsection \<open>Writing an endpoint\<close>

lemma py_str_1: "py_str 1 = ''1''"
  by (simp add: py_str_def digit_char_def)

lemma write_endpoint_missing:
  "map_of (endpoints c) endpoint = None \<Longrightarrow>
   write_endpoint c endpoint d w = (Inl (KeyError endpoint), w)"
  by (simp add: write_endpoint_def)

lemma write_endpoint_wrote:
  "map_of (endpoints c) endpoint = Some p \<Longrightarrow> wperm w p = None \<Longrightarrow>
   write_endpoint c endpoint d w =
     (Inr (length (py_str d)),
      w\<lparr>files := (files w)(p := Inr (py_str d)), io_log := io_log w @ [Wrote p (py_str d)]\<rparr>)"
  by (simp add: write_endpoint_def)

lemma write_endpoint_refused:
  "map_of (endpoints c) endpoint = Some p \<Longrightarrow> wperm w p = Some e \<Longrightarrow>
   write_endpoint c endpoint d w =
     (Inl (if e = PermissionError then SystemExit 1 else e),
      w\<lparr>io_log := io_log w @ [Refused p e]\<rparr>)"
  by (simp add: write_endpoint_def)

lemma set_fan_speed_unfold:
  "set_fan_speed c speed w =
     (case scaled_speed c speed w of
        Inl e \<Rightarrow> (Inl e, w)
      | Inr duty \<Rightarrow>
          (case write_endpoint c ''pwm1_enable'' 1 w of
             (Inl e, w1) \<Rightarrow> (Inl e, w1)
           | (Inr n, w1) \<Rightarrow>
               (case py_int_of_number duty of
                  Inl e \<Rightarrow> (Inl e, w1)
                | Inr d \<Rightarrow> write_endpoint c ''pwm1'' d w1)))"
  by (cases "scaled_speed c speed w")
     (simp_all add: set_fan_speed_def set_system_controlled_fan_def manual_control_def)

text \<open>
  The five ways a call of \<open>set_fan_speed\<close> can end, by the events it adds to the trace.
\<close>

lemma set_fan_speed_outcomes:
  assumes "set_fan_speed c speed w = (r, w')"
  obtains (silent) e where "r = Inl e" "w' = w"
  | (mode_refused) pe e where "map_of (endpoints c) ''pwm1_enable'' = Some pe"
      "r = Inl (if e = PermissionError then SystemExit 1 else e)"
      "io_log w' = io_log w @ [Refused pe e]"
  | (mode_only) pe e where "map_of (endpoints c) ''pwm1_enable'' = Some pe"
      "r = Inl e" "io_log w' = io_log w @ [Wrote pe ''1'']"
  | (duty_refused) pe pd e where "map_of (endpoints c) ''pwm1_enable'' = Some pe"
      "map_of (endpoints c) ''pwm1'' = Some pd"
      "r = Inl (if e = PermissionError then SystemExit 1 else e)"
      "io_log w' = io_log w @ [Wrote pe ''1'', Refused pd e]"
  | (written) pe pd d where "map_of (endpoints c) ''pwm1_enable'' = Some pe"
      "map_of (endpoints c) ''pwm1'' = Some pd"
      "r = Inr (length (py_str d))"
      "io_log w' = io_log w @ [Wrote pe ''1'', Wrote pd (py_str d)]"
proof (cases "scaled_speed c speed w")
  case (Inl e)
  then have "r = Inl e" "w' = w" using assms by (simp_all add: set_fan_speed_unfold)
  then show ?thesis by (rule silent)
next
  case duty: (Inr duty)
  show ?thesis
  proof (cases "map_of (endpoints c) ''pwm1_enable''")
    case None
    then have "r = Inl (KeyError ''pwm1_enable'')" "w' = w"
      using assms duty by (simp_all add: set_fan_speed_unfold write_endpoint_missing)
    then show ?thesis by (rule silent)
  next
    case pe: (Some pe)
    show ?thesis
    proof (cases "wperm w pe")
      case (Some e)
      then have "r = Inl (if e = PermissionError then SystemExit 1 else e)"
        "io_log w' = io_log w @ [Refused pe e]"
        using assms duty pe by (auto simp: set_fan_speed_unfold write_endpoint_refused)
      with pe show ?thesis by (rule mode_refused)
    next
      case None
      define w1 where "w1 = w\<lparr>files := (files w)(pe := Inr ''1''),
        io_log := io_log w @ [Wrote pe ''1'']\<rparr>"
      have step: "set_fan_speed c speed w =
          (case py_int_of_number duty of
             Inl e \<Rightarrow> (Inl e, w1)
           | Inr d \<Rightarrow> write_endpoint c ''pwm1'' d w1)"
        using duty pe None
        by (simp add: set_fan_speed_unfold write_endpoint_wrote py_str_1 w1_def
            split: sum.split)
      have log1: "io_log w1 = io_log w @ [Wrote pe ''1'']" by (simp add: w1_def)
      show ?thesis
      proof (cases "py_int_of_number duty")
        case (Inl e)
        then have "r = Inl e" "io_log w' = io_log w @ [Wrote pe ''1'']"
          using assms step log1 by auto
        with pe show ?thesis by (rule mode_only)
      next
        case d: (Inr d)
        show ?thesis
        proof (cases "map_of (endpoints c) ''pwm1''")
          case None
          then have "r = Inl (KeyError ''pwm1'')" "io_log w' = io_log w @ [Wrote pe ''1'']"
            using assms step d log1 by (auto simp: write_endpoint_missing)
          with pe show ?thesis by (rule mode_only)
        next
          case pd: (Some pd)
          show ?thesis
          proof (cases "wperm w1 pd")
            case None
            then have "r = Inr (length (py_str d))"
              "io_log w' = io_log w @ [Wrote pe ''1'', Wrote pd (py_str d)]"
              using assms step d pd log1 by (auto simp: write_endpoint_wrote)
            with pe pd show ?thesis by (rule written)
          next
            case (Some e)
            then have "r = Inl (if e = PermissionError then SystemExit 1 else e)"
              "io_log w' = io_log w @ [Wrote pe ''1'', Refused pd e]"
              using assms step d pd log1 by (auto simp: write_endpoint_refused)
            with pe pd show ?thesis by (rule duty_refused)
          qed
        qed
      qed
    qed
  qed
qed

subsection \<open>The control loop\<close>

text \<open>
  The body of the loop either raises before it reaches \<open>set_fan_speed\<close>, leaving the
  world as it was, or is the call of \<open>set_fan_speed\<close> with some speed.
\<close>

lemma control_card_outcomes:
  assumes "control_card cv c w = (r, w')"
  obtains (raised) e where "r = Inl e" "w' = w"
  | (called) speed where "set_fan_speed c speed w = (r, w')"
  using assms
  by (auto simp: control_card_def Let_def split: sum.splits)

text \<open>A pass over the cards runs the body for each card in turn and stops at the first exception.\<close>

lemma tick_append:
  "tick cv (pre @ (name, c) # post) w =
     (case tick cv pre w of
        (Inl e, w1) \<Rightarrow> (Inl e, w1)
      | (Inr u, w1) \<Rightarrow>
          (case control_card cv c w1 of
             (Inl e, w2) \<Rightarrow> (Inl e, w2)
           | (Inr n, w2) \<Rightarrow> tick cv post w2))"
proof (induction pre arbitrary: w)
  case Nil
  show ?case by simp
next
  case (Cons a pre)
  obtain name' c' where a: "a = (name', c')" by (cases a)
  show ?case
    by (simp add: a Cons.IH split: prod.split sum.split)
qed

subsection \<open>The example cards, evaluated\<close>

lemma card1_paths:
  "map_of (endpoints card1) ''pwm1_enable'' = Some ''/sys/class/drm/card1/device/hwmon/hwmon3/pwm1_enable''"
  "map_of (endpoints card1) ''pwm1'' = Some ''/sys/class/drm/card1/device/hwmon/hwmon3/pwm1''"
  "map_of (endpoints card1) ''pwm1_max'' = Some ''/sys/class/drm/card1/device/hwmon/hwmon3/pwm1_max''"
  by (simp_all add: card1_def amd_card_def)

lemma card1_max_text: "read_endpoint card1 ''pwm1_max'' two_cards = Inr ''58\<newline>''"
  by (simp add: read_endpoint_def card1_paths two_cards_def)

lemma py_int_58: "py_int ''58\<newline>'' = Inr 58"
  by (simp add: eval_text)
lemma card1_fan_max: "fan_max card1 two_cards = Inr 58"
  by (simp add: fan_max_def card1_max_text py_int_58)

lemma double_58: "to_double (58 / 100) = Finite (5224175567749775 / 9007199254740992)"
  by (simp add: eval_double)

lemma double_58_50:
  "to_double (5224175567749775 / 9007199254740992 * 50) =
     Finite (8162774324609023 / 281474976710656)"
  by (simp add: eval_double)

lemma trunc_58_50: "trunc (8162774324609023 / 281474976710656) = 28"
  by (simp add: trunc_def floor_rat_numeral)

lemma scaled_58_50:
  "scaled_speed card1 50 two_cards = Inr (PyFloat (Finite (8162774324609023 / 281474976710656)))"
  using double_58 double_58_50
  by (simp add: scaled_speed_def card1_fan_max int_truediv_def float_mul_def)
lemma two_cards_fields: "wperm two_cards = (\<lambda>p. None)" "io_log two_cards = []"
  by (simp_all add: two_cards_def)

lemma py_str_28: "py_str 28 = ''28''"
  by (simp add: py_str_def digit_char_def)

lemma set_fan_speed_58_50:
  "fst (set_fan_speed card1 50 two_cards) = Inr 2"
  "io_log (snd (set_fan_speed card1 50 two_cards)) =
     [Wrote ''/sys/class/drm/card1/device/hwmon/hwmon3/pwm1_enable'' ''1'',
      Wrote ''/sys/class/drm/card1/device/hwmon/hwmon3/pwm1'' ''28'']"
  by (simp_all add: set_fan_speed_unfold scaled_58_50 write_endpoint_wrote card1_paths
      two_cards_fields py_int_of_number_def int_of_float_def trunc_58_50 py_str_1 py_str_28)

lemma py_int_900: "py_int ''900\<newline>'' = Inr 900"
  by (simp add: eval_text)

lemma card1_fan_path:
  "map_of (endpoints card1) ''fan1_input'' =
     Some ''/sys/class/drm/card1/device/hwmon/hwmon3/fan1_input''"
  by (simp add: card1_def amd_card_def)

lemma card1_fan_text:
  "files two_cards ''/sys/class/drm/card1/device/hwmon/hwmon3/fan1_input'' = Inr ''900\<newline>''"
  by (simp add: two_cards_def)

lemma denied_world_fields:
  "files denied_world = files two_cards" "io_log denied_world = []"
  "wperm denied_world ''/sys/class/drm/card0/device/hwmon/hwmon0/pwm1_enable'' = None"
  "wperm denied_world ''/sys/class/drm/card0/device/hwmon/hwmon0/pwm1'' = Some PermissionError"
  by (simp_all add: denied_world_def two_cards_def)

lemma card0_paths:
  "map_of (endpoints card0) ''temp1_input'' =
     Some ''/sys/class/drm/card0/device/hwmon/hwmon0/temp1_input''"
  "map_of (endpoints card0) ''pwm1_max'' = Some ''/sys/class/drm/card0/device/hwmon/hwmon0/pwm1_max''"
  "map_of (endpoints card0) ''pwm1_min'' = Some ''/sys/class/drm/card0/device/hwmon/hwmon0/pwm1_min''"
  "map_of (endpoints card0) ''fan1_input'' =
     Some ''/sys/class/drm/card0/device/hwmon/hwmon0/fan1_input''"
  "map_of (endpoints card0) ''pwm1_enable'' =
     Some ''/sys/class/drm/card0/device/hwmon/hwmon0/pwm1_enable''"
  "map_of (endpoints card0) ''pwm1'' = Some ''/sys/class/drm/card0/device/hwmon/hwmon0/pwm1''"
  by (simp_all add: card0_def amd_card_def)

lemma card0_texts:
  "files two_cards ''/sys/class/drm/card0/device/hwmon/hwmon0/temp1_input'' = Inr ''45000\<newline>''"
  "files two_cards ''/sys/class/drm/card0/device/hwmon/hwmon0/pwm1_max'' = Inr ''255\<newline>''"
  "files two_cards ''/sys/class/drm/card0/device/hwmon/hwmon0/pwm1_min'' = Inr ''0\<newline>''"
  "files two_cards ''/sys/class/drm/card0/device/hwmon/hwmon0/fan1_input'' = Inr ''1200\<newline>''"
  by (simp_all add: two_cards_def)

lemma card0_numbers:
  "py_int ''45000\<newline>'' = Inr 45000" "py_int ''255\<newline>'' = Inr 255"
  "py_int ''0\<newline>'' = Inr 0" "py_int ''1200\<newline>'' = Inr 1200"
  by (simp_all add: eval_text)

lemma double_45:
  "to_double 45000 = Finite 45000" "to_double (45000 / 1000) = Finite 45"
  by (simp_all add: eval_double)

lemma card0_reads:
  "gpu_temp card0 denied_world = Inr (Finite 45)"
  "fan_speed card0 denied_world = Inr 1200"
  "fan_min card0 denied_world = Inr 0"
  "fan_max card0 denied_world = Inr 255"
  using double_45
  by (simp_all add: gpu_temp_def fan_speed_def fan_min_def fan_max_def read_endpoint_def
      card0_paths denied_world_fields card0_texts card0_numbers py_float_def float_div_def)

lemma test_curve_45:
  "trunc 45 = 45" "get_speed test_curve 45 = 195 / 4" "trunc (195 / 4) = 48"
  by (simp_all add: get_speed_def np_interp_def test_curve_def trunc_def floor_rat_numeral)

lemma control_card0_denied:
  "control_card test_curve card0 denied_world = set_fan_speed card0 48 denied_world"
  by (simp add: control_card_def card0_reads int_of_float_def test_curve_45 Let_def)

lemma double_255_48:
  "to_double (255 / 100) = Finite (2871044762448691 / 1125899906842624)"
  "to_double (2871044762448691 / 1125899906842624 * 48) =
     Finite (8613134287346073 / 70368744177664)"
  "trunc (8613134287346073 / 70368744177664) = 122"
  by (simp_all add: eval_double)

lemma scaled_255_48:
  "scaled_speed card0 48 denied_world =
     Inr (PyFloat (Finite (8613134287346073 / 70368744177664)))"
  using double_255_48
  by (simp add: scaled_speed_def card0_reads int_truediv_def float_mul_def)

lemma set_fan_speed_denied:
  "fst (set_fan_speed card0 48 denied_world) = Inl (SystemExit 1)"
  "io_log (snd (set_fan_speed card0 48 denied_world)) =
     [Wrote ''/sys/class/drm/card0/device/hwmon/hwmon0/pwm1_enable'' ''1'',
      Refused ''/sys/class/drm/card0/device/hwmon/hwmon0/pwm1'' PermissionError]"
  by (simp_all add: set_fan_speed_unfold scaled_255_48 write_endpoint_wrote
      write_endpoint_refused card0_paths denied_world_fields py_int_of_number_def
      int_of_float_def double_255_48 py_str_1)

section \<open>The claims about the cards and the control loop\<close>

text \<open>
  Claim C10. A device whose endpoints lack the tachometer \<open>fan1_input\<close> reports the fan
  speed 0 instead of failing; when the endpoint is there, \<open>fan_speed\<close> is the integer
  read from it.
\<close>

theorem fan_speed_without_tachometer:
  "(map_of (endpoints c) ''fan1_input'' = None \<longrightarrow> fan_speed c w = Inr 0) \<and>
   (map_of (endpoints c) ''fan1_input'' = Some p \<and> files w p = Inr text \<and> py_int text = Inr n
      \<longrightarrow> fan_speed c w = Inr n)"
  by (simp add: fan_speed_def read_endpoint_def)

theorem fan_speed_without_tachometer_witness:
  "map_of (endpoints no_pwm1_card) ''fan1_input'' = None \<and>
   fan_speed no_pwm1_card no_pwm1_world = Inr 0 \<and>
   map_of (endpoints card1) ''fan1_input'' =
     Some ''/sys/class/drm/card1/device/hwmon/hwmon3/fan1_input'' \<and>
   files two_cards ''/sys/class/drm/card1/device/hwmon/hwmon3/fan1_input'' = Inr ''900\<newline>'' \<and>
   py_int ''900\<newline>'' = Inr 900 \<and>
   fan_speed card1 two_cards = Inr 900"
proof -
  have none: "map_of (endpoints no_pwm1_card) ''fan1_input'' = None"
    by (simp add: no_pwm1_card_def)
  show ?thesis
    using fan_speed_without_tachometer [of no_pwm1_card no_pwm1_world]
      fan_speed_without_tachometer [of card1 two_cards
        "''/sys/class/drm/card1/device/hwmon/hwmon3/fan1_input''" "''900\<newline>''" 900]
      none card1_fan_path card1_fan_text py_int_900
    by simp
qed

text \<open>
  Claim C7. Every call of \<open>set_fan_speed\<close> writes the manual-mode value 1 to the
  control-mode switch \<open>pwm1_enable\<close> before it writes the duty to \<open>pwm1\<close>, and never
  attempts a duty write without that mode write before it in the same call. The events
  a call adds to the trace are one of: none (a read, or the lookup of the switch, raised);
  the refused mode write alone; the mode write alone (the conversion of the duty, or the
  lookup of \<open>pwm1\<close>, raised); the mode write and then the refused duty write; the mode
  write and then the duty write, which is the only case in which the call returns.
\<close>

theorem manual_mode_before_duty:
  assumes "set_fan_speed c speed w = (r, w')"
  shows "\<exists>evs. io_log w' = io_log w @ evs \<and>
           (evs = [] \<and> (\<exists>e. r = Inl e) \<or>
            (\<exists>pe. map_of (endpoints c) ''pwm1_enable'' = Some pe \<and>
               ((\<exists>e. evs = [Refused pe e]) \<and> (\<exists>e. r = Inl e) \<or>
                evs = [Wrote pe ''1''] \<and> (\<exists>e. r = Inl e) \<or>
                (\<exists>pd. map_of (endpoints c) ''pwm1'' = Some pd \<and>
                   ((\<exists>e. evs = [Wrote pe ''1'', Refused pd e]) \<and> (\<exists>e. r = Inl e) \<or>
                    (\<exists>d. evs = [Wrote pe ''1'', Wrote pd (py_str d)] \<and>
                         r = Inr (length (py_str d))))))))"
  using assms
proof (cases rule: set_fan_speed_outcomes)
  case (silent e)
  then show ?thesis by (intro exI [of _ "[]"]) simp
next
  case (mode_refused pe e)
  then show ?thesis by (intro exI [of _ "[Refused pe e]"]) simp
next
  case (mode_only pe e)
  then show ?thesis by (intro exI [of _ "[Wrote pe ''1'']"]) simp
next
  case (duty_refused pe pd e)
  then show ?thesis by (intro exI [of _ "[Wrote pe ''1'', Refused pd e]"]) simp
next
  case (written pe pd d)
  then show ?thesis by (intro exI [of _ "[Wrote pe ''1'', Wrote pd (py_str d)]"]) auto
qed

theorem manual_mode_before_duty_witness:
  "set_fan_speed card1 50 two_cards = (Inr 2, snd (set_fan_speed card1 50 two_cards)) \<and>
   io_log (snd (set_fan_speed card1 50 two_cards)) =
     io_log two_cards @
       [Wrote ''/sys/class/drm/card1/device/hwmon/hwmon3/pwm1_enable'' ''1'',
        Wrote ''/sys/class/drm/card1/device/hwmon/hwmon3/pwm1'' (py_str 28)]"
proof -
  have run: "set_fan_speed card1 50 two_cards = (Inr 2, snd (set_fan_speed card1 50 two_cards))"
    using set_fan_speed_58_50(1) by (simp add: prod_eq_iff)
  from manual_mode_before_duty [OF run] set_fan_speed_58_50(2) run
  show ?thesis by (simp add: two_cards_fields py_str_28)
qed

text \<open>
  Claim C6. When a write of some device is refused for lack of privilege during a pass,
  the process ends at once with exit status 1: the pass and the loop return
  \<open>SystemExit 1\<close> in the world of the refused write, whatever devices follow in the
  pass; the refused write is the last event of the trace and occurs once among the events
  of that device, so it was not tried again.
\<close>

theorem permission_error_exits:
  assumes pre: "tick cv pre w = (Inr (), w1)"
    and step: "control_card cv c w1 = (r, w2)"
    and refused: "Refused p PermissionError \<in> set (drop (length (io_log w1)) (io_log w2))"
  shows "r = Inl (SystemExit 1) \<and>
         tick cv (pre @ (name, c) # post) w = (Inl (SystemExit 1), w2) \<and>
         main (Suc n) \<lparr>scanner_cards = pre @ (name, c) # post, fc_curve = cv\<rparr> w =
           (Some (SystemExit 1), w2) \<and>
         (\<exists>evs. io_log w2 = io_log w1 @ evs @ [Refused p PermissionError] \<and>
            Refused p PermissionError \<notin> set evs)"
proof -
  have exit: "r = Inl (SystemExit 1)"
    and trace: "\<exists>evs. io_log w2 = io_log w1 @ evs @ [Refused p PermissionError] \<and>
            Refused p PermissionError \<notin> set evs"
    using step
  proof (atomize (full), cases rule: control_card_outcomes)
    case (raised e)
    then show "r = Inl (SystemExit 1) \<and>
        (\<exists>evs. io_log w2 = io_log w1 @ evs @ [Refused p PermissionError] \<and>
           Refused p PermissionError \<notin> set evs)"
      using refused by simp
  next
    case (called speed)
    then show "r = Inl (SystemExit 1) \<and>
        (\<exists>evs. io_log w2 = io_log w1 @ evs @ [Refused p PermissionError] \<and>
           Refused p PermissionError \<notin> set evs)"
    proof (cases rule: set_fan_speed_outcomes)
      case (silent e)
      then show ?thesis using refused by simp
    next
      case (mode_refused pe e)
      then have "p = pe" "e = PermissionError" using refused by simp_all
      then show ?thesis using mode_refused by (intro conjI exI [of _ "[]"]) simp_all
    next
      case (mode_only pe e)
      then show ?thesis using refused by simp
    next
      case (duty_refused pe pd e)
      then have "p = pd" "e = PermissionError" using refused by simp_all
      then show ?thesis using duty_refused
        by (intro conjI exI [of _ "[Wrote pe ''1'']"]) simp_all
    next
      case (written pe pd d)
      then show ?thesis using refused by simp
    qed
  qed
  have pass: "tick cv (pre @ (name, c) # post) w = (Inl (SystemExit 1), w2)"
    using pre step exit by (simp add: tick_append)
  then have "main (Suc n) \<lparr>scanner_cards = pre @ (name, c) # post, fc_curve = cv\<rparr> w =
      (Some (SystemExit 1), w2)"
    by simp
  with exit pass trace show ?thesis by simp
qed

theorem permission_error_exits_witness:
  "tick test_curve [] denied_world = (Inr (), denied_world) \<and>
   control_card test_curve card0 denied_world =
     (Inl (SystemExit 1), snd (control_card test_curve card0 denied_world)) \<and>
   Refused ''/sys/class/drm/card0/device/hwmon/hwmon0/pwm1'' PermissionError
     \<in> set (drop (length (io_log denied_world))
          (io_log (snd (control_card test_curve card0 denied_world)))) \<and>
   tick test_curve ([] @ (''card0'', card0) # [(''card1'', card1)]) denied_world =
     (Inl (SystemExit 1), snd (control_card test_curve card0 denied_world)) \<and>
   main (Suc 2)
     \<lparr>scanner_cards = [] @ (''card0'', card0) # [(''card1'', card1)], fc_curve = test_curve\<rparr>
     denied_world =
     (Some (SystemExit 1), snd (control_card test_curve card0 denied_world)) \<and>
   io_log (snd (control_card test_curve card0 denied_world)) =
     [Wrote ''/sys/class/drm/card0/device/hwmon/hwmon0/pwm1_enable'' ''1'',
      Refused ''/sys/class/drm/card0/device/hwmon/hwmon0/pwm1'' PermissionError]"
proof -
  let ?w2 = "snd (control_card test_curve card0 denied_world)"
  have pre: "tick test_curve [] denied_world = (Inr (), denied_world)" by simp
  have step: "control_card test_curve card0 denied_world = (Inl (SystemExit 1), ?w2)"
    using set_fan_speed_denied(1) by (simp add: control_card0_denied prod_eq_iff)
  have log: "io_log ?w2 =
     [Wrote ''/sys/class/drm/card0/device/hwmon/hwmon0/pwm1_enable'' ''1'',
      Refused ''/sys/class/drm/card0/device/hwmon/hwmon0/pwm1'' PermissionError]"
    using set_fan_speed_denied(2) by (simp add: control_card0_denied)
  have refused: "Refused ''/sys/class/drm/card0/device/hwmon/hwmon0/pwm1'' PermissionError
     \<in> set (drop (length (io_log denied_world)) (io_log ?w2))"
    by (simp add: log denied_world_fields)
  from permission_error_exits [OF pre step refused, of "''card0''" "[(''card1'', card1)]" 2]
  show ?thesis using pre step refused log by simp
qed

subsection \<open>More evaluations of the examples\<close>

lemma card1_more_paths:
  "map_of (endpoints card1) ''temp1_input'' =
     Some ''/sys/class/drm/card1/device/hwmon/hwmon3/temp1_input''"
  "map_of (endpoints card1) ''pwm1_min'' = Some ''/sys/class/drm/card1/device/hwmon/hwmon3/pwm1_min''"
  by (simp_all add: card1_def amd_card_def)

lemma card1_texts:
  "files two_cards ''/sys/class/drm/card1/device/hwmon/hwmon3/temp1_input'' = Inr ''61500\<newline>''"
  "files two_cards ''/sys/class/drm/card1/device/hwmon/hwmon3/pwm1_min'' = Inr ''0\<newline>''"
  by (simp_all add: two_cards_def)

lemma py_int_61500: "py_int ''61500\<newline>'' = Inr 61500"
  by (simp add: eval_text)

lemma double_61500:
  "to_double 61500 = Finite 61500" "to_double (61500 / 1000) = Finite (123 / 2)"
  by (simp_all add: eval_double)

lemma card1_reads:
  "gpu_temp card1 two_cards = Inr (Finite (123 / 2))"
  "fan_speed card1 two_cards = Inr 900"
  "fan_min card1 two_cards = Inr 0"
  using double_61500
  by (simp_all add: gpu_temp_def fan_speed_def fan_min_def read_endpoint_def
      card1_more_paths card1_fan_path card1_texts card1_fan_text py_int_61500 py_int_900
      card0_numbers py_float_def float_div_def)


lemma py_str_0_58: "py_str 0 = ''0''" "py_str 58 = ''58''"
  by (simp_all add: py_str_def digit_char_def)

lemma scan_no_pwm1_world:
  "get_cards no_pwm1_world None =
     Inr [(''card0'', no_pwm1_card), (''card1'', amd_card ''card1'' ''hwmon1'')]"
  by (simp add: no_pwm1_world_def no_pwm1_card_def eval_fs eval_card is_digit_def)



text \<open>
  Claim C5, as the code has it. \<open>set_fan_speed\<close> commands the duty minimum for a speed
  of 0 or less and the duty maximum for a speed of 100 or more. For a speed in between it
  commands \<open>int(fan_max / 100 * speed)\<close> in double precision: the quotient
  \<open>fan_max / 100\<close> is rounded to a double \<open>q\<close>, the product \<open>q * speed\<close> is rounded to
  a double \<open>x\<close>, and \<open>x\<close> is truncated. The decimal text of that integer is what is
  written to \<open>pwm1\<close>, after the mode write, when both writes are allowed.
\<close>

theorem set_fan_speed_duty:
  assumes "map_of (endpoints c) ''pwm1_enable'' = Some pe"
    and "map_of (endpoints c) ''pwm1'' = Some pd"
    and "wperm w pe = None" and "wperm w pd = None"
    and "speed \<le> 0 \<longrightarrow> fan_min c w = Inr lo"
    and "0 < speed \<longrightarrow> fan_max c w = Inr hi"
    and "0 < speed \<and> speed < 100 \<longrightarrow>
           to_double (of_int hi / 100) = Finite q \<and> to_double (q * of_int speed) = Finite x"
  shows "let duty = (if 100 \<le> speed then hi else if speed \<le> 0 then lo else trunc x) in
           fst (set_fan_speed c speed w) = Inr (length (py_str duty)) \<and>
           io_log (snd (set_fan_speed c speed w)) =
             io_log w @ [Wrote pe ''1'', Wrote pd (py_str duty)]"
proof -
  define duty where "duty = (if 100 \<le> speed then hi else if speed \<le> 0 then lo else trunc x)"
  have scaled: "\<exists>v. scaled_speed c speed w = Inr v \<and> py_int_of_number v = Inr duty"
  proof (cases "100 \<le> speed")
    case True
    then show ?thesis using assms(6)
      by (simp add: scaled_speed_def duty_def py_int_of_number_def)
  next
    case False
    show ?thesis
    proof (cases "speed \<le> 0")
      case True
      then show ?thesis using assms(5)
        by (simp add: scaled_speed_def duty_def py_int_of_number_def)
    next
      case pos: False
      then show ?thesis using False assms(6,7)
        by (simp add: scaled_speed_def duty_def py_int_of_number_def int_truediv_def
            float_mul_def int_of_float_def)
    qed
  qed
  then obtain v where v: "scaled_speed c speed w = Inr v" "py_int_of_number v = Inr duty"
    by blast
  have "fst (set_fan_speed c speed w) = Inr (length (py_str duty)) \<and>
        io_log (snd (set_fan_speed c speed w)) =
          io_log w @ [Wrote pe ''1'', Wrote pd (py_str duty)]"
    using assms(1-4) v
    by (simp add: set_fan_speed_unfold write_endpoint_wrote py_str_1)
  then show ?thesis by (simp add: duty_def Let_def)
qed

text \<open>
  The claim states the duty as \<open>duty_max * percent / 100\<close>, truncated. With a duty
  maximum of 58 and a speed of 50 that is 29; the code computes \<open>58 / 100 * 50\<close>, which
  is 28.999999999999996 in double precision, and writes 28.
\<close>

theorem set_fan_speed_duty_counterexample:
  "fan_max card1 two_cards = Inr 58 \<and> trunc (58 * 50 / 100) = 29 \<and>
   io_log (snd (set_fan_speed card1 50 two_cards)) =
     [Wrote ''/sys/class/drm/card1/device/hwmon/hwmon3/pwm1_enable'' ''1'',
      Wrote ''/sys/class/drm/card1/device/hwmon/hwmon3/pwm1'' ''28'']"
  using card1_fan_max set_fan_speed_58_50(2) by (simp add: trunc_def)

theorem set_fan_speed_duty_witness:
  "map_of (endpoints card1) ''pwm1_enable'' =
     Some ''/sys/class/drm/card1/device/hwmon/hwmon3/pwm1_enable'' \<and>
   map_of (endpoints card1) ''pwm1'' = Some ''/sys/class/drm/card1/device/hwmon/hwmon3/pwm1'' \<and>
   wperm two_cards ''/sys/class/drm/card1/device/hwmon/hwmon3/pwm1_enable'' = None \<and>
   wperm two_cards ''/sys/class/drm/card1/device/hwmon/hwmon3/pwm1'' = None \<and>
   fan_min card1 two_cards = Inr 0 \<and> fan_max card1 two_cards = Inr 58 \<and>
   to_double (of_int 58 / 100) = Finite (5224175567749775 / 9007199254740992) \<and>
   to_double (5224175567749775 / 9007199254740992 * of_int 50) =
     Finite (8162774324609023 / 281474976710656) \<and>
   io_log (snd (set_fan_speed card1 0 two_cards)) =
     [Wrote ''/sys/class/drm/card1/device/hwmon/hwmon3/pwm1_enable'' ''1'',
      Wrote ''/sys/class/drm/card1/device/hwmon/hwmon3/pwm1'' ''0''] \<and>
   io_log (snd (set_fan_speed card1 100 two_cards)) =
     [Wrote ''/sys/class/drm/card1/device/hwmon/hwmon3/pwm1_enable'' ''1'',
      Wrote ''/sys/class/drm/card1/device/hwmon/hwmon3/pwm1'' ''58''] \<and>
   io_log (snd (set_fan_speed card1 50 two_cards)) =
     [Wrote ''/sys/class/drm/card1/device/hwmon/hwmon3/pwm1_enable'' ''1'',
      Wrote ''/sys/class/drm/card1/device/hwmon/hwmon3/pwm1'' ''28'']"
proof -
  note inst = set_fan_speed_duty [where c = card1 and w = two_cards
      and pe = "''/sys/class/drm/card1/device/hwmon/hwmon3/pwm1_enable''"
      and pd = "''/sys/class/drm/card1/device/hwmon/hwmon3/pwm1''"
      and lo = 0 and hi = 58
      and q = "5224175567749775 / 9007199254740992"
      and x = "8162774324609023 / 281474976710656"]
  have q: "to_double (of_int 58 / 100) = Finite (5224175567749775 / 9007199254740992)"
    using double_58 by simp
  have x: "to_double (5224175567749775 / 9007199254740992 * of_int 50) =
      Finite (8162774324609023 / 281474976710656)"
    using double_58_50 by simp
  have perm: "wperm two_cards ''/sys/class/drm/card1/device/hwmon/hwmon3/pwm1_enable'' = None"
    "wperm two_cards ''/sys/class/drm/card1/device/hwmon/hwmon3/pwm1'' = None"
    by (simp_all add: two_cards_fields)
  show ?thesis
    using inst [of 0] inst [of 100] inst [of 50] q x perm
      card1_paths(1,2) card1_reads(3) card1_fan_max
    by (simp add: two_cards_fields py_str_0_58 py_str_28 trunc_58_50)
qed

text \<open>
  Claim C1. A scan leaves out a candidate that lacks one of the five required endpoints,
  keeps the candidates that have them all, and does not fail because of such a candidate.
  \<open>Card.__init__\<close> never calls \<open>_verify_card\<close>: in a directory where \<open>card0\<close> has no
  \<open>pwm1\<close>, the scan returns \<open>card0\<close> with the other card, although \<open>_verify_card\<close> would
  have raised \<open>FileNotFoundError\<close> on it.
\<close>

theorem get_cards_keeps_card_without_pwm1:
  "get_cards no_pwm1_world None =
     Inr [(''card0'', no_pwm1_card), (''card1'', amd_card ''card1'' ''hwmon1'')] \<and>
   map_of (endpoints no_pwm1_card) ''pwm1'' = None \<and>
   verify_card no_pwm1_card = Inl FileNotFoundError"
  using scan_no_pwm1_world by (simp add: no_pwm1_card_def verify_card_def AMD_FIELDS_def)

end
